theory Spec2Isabelle
  imports Main
begin

section \<open>Python values and documents\<close>

text \<open>
  The values that travel between the session interface and the collection. A
  \<open>datetime\<close> is the count of microseconds since the epoch (the resolution of Python's
  \<open>datetime\<close>). \<open>PyBytes\<close> carries the bytes as characters. \<open>PyNone\<close> is Python's
  \<open>None\<close>, which the source returns for an absent record.
\<close>

datatype pyval =
    PyNone
  | PyBool bool
  | PyInt int
  | PyStr string
  | PyBytes string
  | PyDatetime int

text \<open>
  A document is a Python dict with string keys, kept in insertion order. A query filter
  is a dict too.
\<close>

type_synonym doc = "(string \<times> pyval) list"

text \<open>\<open>d.get(field)\<close>: the value under the field, \<open>None\<close> when the field is missing.\<close>

definition dict_get :: "doc \<Rightarrow> string \<Rightarrow> pyval" where
  "dict_get d field = (case map_of d field of None \<Rightarrow> PyNone | Some v \<Rightarrow> v)"

text \<open>
  Date arithmetic raises \<open>OverflowError\<close> outside its range, and so does the driver for
  an integer that does not fit the store.
\<close>

datatype py_error = OverflowError

text \<open>
  \<open>datetime.min\<close> is 0001-01-01 00:00:00 and \<open>datetime.max\<close> is
  9999-12-31 23:59:59.999999, here in microseconds since the epoch.
\<close>

definition datetime_min :: int where "datetime_min = - 62135596800000000"
definition datetime_max :: int where "datetime_max = 253402300799999999"

text \<open>
  \<open>timedelta(seconds=n)\<close> for an integer \<open>n\<close>, in microseconds: the constructor
  refuses a span of more than 999999999 days either way.
\<close>

definition timedelta_seconds :: "int \<Rightarrow> py_error + int" where
  "timedelta_seconds n =
     (if - 999999999 \<le> n div 86400 \<and> n div 86400 \<le> 999999999
      then Inr (n * 1000000) else Inl OverflowError)"

text \<open>\<open>datetime + timedelta\<close>: the sum has to be a \<open>datetime\<close> again.\<close>

definition datetime_add :: "int \<Rightarrow> int \<Rightarrow> py_error + int" where
  "datetime_add t delta =
     (if datetime_min \<le> t + delta \<and> t + delta \<le> datetime_max
      then Inr (t + delta) else Inl OverflowError)"

section \<open>The document collection behind \<open>SessionModel\<close>\<close>

text \<open>
  The source reaches the database only through four class methods of its
  \<open>_SessionModel\<close>: \<open>find_one\<close>, \<open>delete_one\<close>, \<open>replace_one\<close> and \<open>create_index\<close>.
  They belong to the object-document mapper, not to this repository, so the collection
  is modelled here by what these four calls promise: a sequence of documents in
  natural order together with the indexes declared on it. The model covers the path on
  which the storage engine answers; connection loss and timeouts are outside it, and so
  is the \<open>_id\<close> field that the engine adds to each stored document.
\<close>

record index =
  keys :: string
  expireAfterSeconds :: "int option"

record collection =
  docs :: "doc list"
  indexes :: "index list"

definition empty_collection :: collection where
  "empty_collection = \<lparr>docs = [], indexes = []\<rparr>"

text \<open>
  An equality filter \<open>{field: value}\<close> selects the documents that hold \<open>value\<close> under
  \<open>field\<close>; the value \<open>None\<close> also selects the documents without the field.
\<close>

definition matches :: "doc \<Rightarrow> doc \<Rightarrow> bool" where
  "matches flt d =
     list_all (\<lambda>(field, v). case map_of d field of None \<Rightarrow> v = PyNone | Some w \<Rightarrow> w = v) flt"

definition find_one :: "doc \<Rightarrow> collection \<Rightarrow> doc option" where
  "find_one flt c = find (matches flt) (docs c)"

fun remove_first :: "('a \<Rightarrow> bool) \<Rightarrow> 'a list \<Rightarrow> 'a list" where
  "remove_first P [] = []"
| "remove_first P (x # xs) = (if P x then xs else x # remove_first P xs)"

fun replace_first :: "('a \<Rightarrow> bool) \<Rightarrow> 'a \<Rightarrow> 'a list \<Rightarrow> 'a list" where
  "replace_first P r [] = []"
| "replace_first P r (x # xs) = (if P x then r # xs else x # replace_first P r xs)"

text \<open>
  What the collection holds for a value that is written to it, as it reads back: a date
  is cut to the whole millisecond below it, an integer has to fit in 64 bits (the
  driver raises \<open>OverflowError\<close> otherwise), and the other values are held as they
  are. A document is written field by field, in order.
\<close>

fun bson_value :: "pyval \<Rightarrow> py_error + pyval" where
  "bson_value (PyDatetime t) = Inr (PyDatetime (t div 1000 * 1000))"
| "bson_value (PyInt n) =
     (if - (2 ^ 63) \<le> n \<and> n < 2 ^ 63 then Inr (PyInt n) else Inl OverflowError)"
| "bson_value v = Inr v"

fun bson_doc :: "doc \<Rightarrow> py_error + doc" where
  "bson_doc [] = Inr []"
| "bson_doc ((field, v) # d) =
     (case bson_value v of
        Inl e \<Rightarrow> Inl e
      | Inr w \<Rightarrow> (case bson_doc d of Inl e \<Rightarrow> Inl e | Inr d' \<Rightarrow> Inr ((field, w) # d')))"

text \<open>\<open>delete_one\<close> removes the first document the filter selects, if there is one.\<close>

definition delete_one :: "doc \<Rightarrow> collection \<Rightarrow> collection" where
  "delete_one flt c = c\<lparr>docs := remove_first (matches flt) (docs c)\<rparr>"

text \<open>
  \<open>replace_one\<close> writes the replacement in the place of the first document the filter
  selects. When nothing is selected, it inserts the replacement if \<open>upsert\<close> is set and
  does nothing otherwise. A replacement that cannot be written raises before anything
  is sent, and the collection stays as it was.
\<close>

definition replace_one :: "doc \<Rightarrow> doc \<Rightarrow> bool \<Rightarrow> collection \<Rightarrow> py_error + collection" where
  "replace_one flt replacement upsert c =
     (case bson_doc replacement of
        Inl e \<Rightarrow> Inl e
      | Inr r \<Rightarrow>
          Inr (if list_ex (matches flt) (docs c)
               then c\<lparr>docs := replace_first (matches flt) r (docs c)\<rparr>
               else if upsert then c\<lparr>docs := docs c @ [r]\<rparr>
               else c))"

text \<open>
  \<open>create_index\<close> is the engine's create-if-absent: an index that exists with the same
  key and options is left alone, the same key with other options is refused, and a new
  key adds the index.
\<close>

datatype mongo_error = IndexOptionsConflict

definition create_index :: "string \<Rightarrow> int option \<Rightarrow> collection \<Rightarrow> mongo_error + collection" where
  "create_index field secs c =
     (let ix = \<lparr>keys = field, expireAfterSeconds = secs\<rparr> in
      if ix \<in> set (indexes c) then Inr c
      else if field \<in> set (map keys (indexes c)) then Inl IndexOptionsConflict
      else Inr (c\<lparr>indexes := indexes c @ [ix]\<rparr>))"

text \<open>
  The engine's reclamation pass at time \<open>now\<close>: under an index declared with
  \<open>expireAfterSeconds = s\<close>, a document whose indexed field is a date is due once that
  date plus \<open>s\<close> seconds is not later than \<open>now\<close>, and the pass removes every document
  that is due under some index.
\<close>

definition due :: "int \<Rightarrow> doc \<Rightarrow> index \<Rightarrow> bool" where
  "due now d ix =
     (case expireAfterSeconds ix of
        None \<Rightarrow> False
      | Some s \<Rightarrow>
          (case map_of d (keys ix) of
             Some (PyDatetime t) \<Rightarrow> t + s * 1000000 \<le> now
           | _ \<Rightarrow> False))"

definition ttl_pass :: "int \<Rightarrow> collection \<Rightarrow> collection" where
  "ttl_pass now c = c\<lparr>docs := filter (\<lambda>d. \<not> list_ex (due now d) (indexes c)) (docs c)\<rparr>"

section \<open>\<open>MongoDBSessionInterface\<close>\<close>

text \<open>The class attributes that name the fields of a stored session.\<close>

definition expiry_field :: string where "expiry_field = ''expiry''"
definition sid_field :: string where "sid_field = ''sid''"
definition data_field :: string where "data_field = ''data''"

text \<open>
  Modelled from the spec: \<open>BaseSessionInterface.__init__\<close> (\<open>sanic_session/base.py\<close>,
  which is not among the sources) receives the configuration "forwarded verbatim" and
  keeps it; \<open>_set_value\<close> reads the time-to-live back as \<open>self.expiry\<close>. The record
  below holds the keyword arguments of the \<open>super().__init__\<close> call under their
  names, and the interface adds the \<open>SessionModel\<close> attribute, which stands for the
  collection name bound to \<open>_SessionModel.__coll__\<close>.
\<close>

record base_interface =
  expiry :: int
  prefix :: string
  cookie_name :: string
  domain :: pyval
  httponly :: bool
  sessioncookie :: bool
  samesite :: pyval
  session_name :: string

record interface = base_interface +
  SessionModel :: string

text \<open>
  The listener created by \<open>__init__\<close>. It creates the index on \<open>sid\<close> and then the
  expiring index on \<open>expiry\<close>; an error of the second call leaves the first index in
  place, so the failure carries the collection reached so far.
\<close>

definition apply_session_indexes :: "collection \<Rightarrow> (mongo_error \<times> collection) + collection" where
  "apply_session_indexes c =
     (case create_index sid_field None c of
        Inl e \<Rightarrow> Inl (e, c)
      | Inr c1 \<Rightarrow>
          (case create_index expiry_field (Some 0) c1 of
             Inl e \<Rightarrow> Inl (e, c1)
           | Inr c2 \<Rightarrow> Inr c2))"

text \<open>The two indexes the listener asks for, in the order of its calls.\<close>

definition session_indexes :: "index list" where
  "session_indexes =
     [\<lparr>keys = sid_field, expireAfterSeconds = None\<rparr>,
      \<lparr>keys = expiry_field, expireAfterSeconds = Some 0\<rparr>]"

text \<open>
  The application object, as far as \<open>__init__\<close> touches it: the listeners registered
  per event, in registration order.
\<close>

record sanic_app =
  listeners :: "(string \<times> (collection \<Rightarrow> (mongo_error \<times> collection) + collection)) list"

definition listener :: "string \<Rightarrow> (collection \<Rightarrow> (mongo_error \<times> collection) + collection)
    \<Rightarrow> sanic_app \<Rightarrow> sanic_app" where
  "listener event f app = app\<lparr>listeners := listeners app @ [(event, f)]\<rparr>"

datatype init_error = RuntimeError string

datatype warning = DeprecationWarning string

definition httponly_message :: string where
  "httponly_message =
     ''\<newline>                httponly default arg has changed.'' @
     ''\<newline>                To spare you some debugging time, httponly is currently'' @
     ''\<newline>                hardcoded as True. This message will be removed with the'' @
     ''\<newline>                next release. And ``httponly`` will no longer be hardcoded'' @
     ''\<newline>            ''"

text \<open>
  \<open>__init__\<close>. The first argument says whether \<open>sanic_motor\<close> can be imported. The
  primed names are the constructor's arguments; \<open>httponly'\<close> is an arbitrary Python
  value, since \<open>httponly is not True\<close> tests identity with the constant \<open>True\<close>. The
  result is the interface, the application with the listener registered, and the
  warnings issued.
\<close>

definition init :: "bool \<Rightarrow> sanic_app \<Rightarrow> string \<Rightarrow> pyval \<Rightarrow> int \<Rightarrow> pyval \<Rightarrow> string \<Rightarrow> bool
    \<Rightarrow> pyval \<Rightarrow> string \<Rightarrow> init_error + (interface \<times> sanic_app \<times> warning list)" where
  "init sanic_motor_installed app coll domain' expiry' httponly' cookie_name' sessioncookie'
        samesite' session_name' =
     (if \<not> sanic_motor_installed
      then Inl (RuntimeError
        (''Please install Mongo dependencies: '' @ ''pip install sanic_session[mongo]''))
      else
        let prefix' = '''';
            warnings = (if httponly' \<noteq> PyBool True
                        then [DeprecationWarning httponly_message] else []);
            self = \<lparr>expiry = expiry',
                    prefix = prefix',
                    cookie_name = cookie_name',
                    domain = domain',
                    httponly = True,
                    sessioncookie = sessioncookie',
                    samesite = samesite',
                    session_name = session_name',
                    SessionModel = coll\<rparr>
        in Inr (self, listener ''after_server_start'' apply_session_indexes app, warnings))"

text \<open>
  The defaults of the constructor's signature, and the interface that \<open>__init__\<close>
  builds from them.
\<close>

definition default_init :: "bool \<Rightarrow> sanic_app
    \<Rightarrow> init_error + (interface \<times> sanic_app \<times> warning list)" where
  "default_init sanic_motor_installed app =
     init sanic_motor_installed app ''session'' PyNone (30 * 24 * 60 * 60) (PyBool True)
       ''session'' False PyNone ''session''"

definition default_interface :: interface where
  "default_interface =
     \<lparr>expiry = 30 * 24 * 60 * 60, prefix = '''', cookie_name = ''session'', domain = PyNone,
      httponly = True, sessioncookie = False, samesite = PyNone, session_name = ''session'',
      SessionModel = ''session''\<rparr>"

text \<open>\<open>_get_value\<close>: an empty dict counts as false in \<open>if value\<close>, like \<open>None\<close>.\<close>

definition get_value :: "interface \<Rightarrow> string \<Rightarrow> string \<Rightarrow> collection \<Rightarrow> pyval" where
  "get_value self prefix' key c =
     (case find_one [(sid_field, PyStr key)] c of
        None \<Rightarrow> PyNone
      | Some v \<Rightarrow> if v = [] then PyNone else dict_get v data_field)"

text \<open>\<open>_delete_key\<close>.\<close>

definition delete_key :: "interface \<Rightarrow> string \<Rightarrow> collection \<Rightarrow> collection" where
  "delete_key self key c = delete_one [(sid_field, PyStr key)] c"

text \<open>
  \<open>_set_value\<close>; \<open>now\<close> is the value of \<open>datetime.utcnow()\<close>. The sum in its first
  line raises when the time-to-live carries the expiry past \<open>datetime.max\<close>, and then
  \<open>replace_one\<close> is not reached.
\<close>

definition set_value :: "interface \<Rightarrow> int \<Rightarrow> string \<Rightarrow> pyval \<Rightarrow> collection
    \<Rightarrow> py_error + collection" where
  "set_value self now key data c =
     (case timedelta_seconds (expiry self) of
        Inl e \<Rightarrow> Inl e
      | Inr delta \<Rightarrow>
          (case datetime_add now delta of
             Inl e \<Rightarrow> Inl e
           | Inr expiry' \<Rightarrow>
               replace_one
                 [(sid_field, PyStr key)]
                 [(sid_field, PyStr key), (expiry_field, PyDatetime expiry'), (data_field, data)]
                 True
                 c))"

text \<open>
  The collection after a call that was made on \<open>c\<close>: a call that raised has left \<open>c\<close> as
  it was.
\<close>

definition outcome :: "collection \<Rightarrow> py_error + collection \<Rightarrow> collection" where
  "outcome c r = (case r of Inl e \<Rightarrow> c | Inr c' \<Rightarrow> c')"

section \<open>Histories of store operations\<close>

text \<open>
  What can happen to the collection once the interface is in use: a write, a delete, or
  a reclamation pass of the engine. \<open>run\<close> applies a history from left to right; a
  write that raises leaves the collection to the next step as it found it.
  \<open>disturbs ixs r key\<close> says which steps end the life of the record \<open>r\<close> stored
  under \<open>key\<close>: a write or a delete of the same key, and a pass at which \<open>r\<close> is due
  under one of the indexes \<open>ixs\<close>.
\<close>

datatype op = SetValue int string pyval | DeleteKey string | TtlPass int

fun apply_op :: "interface \<Rightarrow> op \<Rightarrow> collection \<Rightarrow> collection" where
  "apply_op self (SetValue now key data) c = outcome c (set_value self now key data c)"
| "apply_op self (DeleteKey key) c = delete_key self key c"
| "apply_op self (TtlPass now) c = ttl_pass now c"

fun run :: "interface \<Rightarrow> op list \<Rightarrow> collection \<Rightarrow> collection" where
  "run self [] c = c"
| "run self (x # xs) c = run self xs (apply_op self x c)"

fun disturbs :: "index list \<Rightarrow> doc \<Rightarrow> string \<Rightarrow> op \<Rightarrow> bool" where
  "disturbs ixs r key (SetValue now k data) = (k = key)"
| "disturbs ixs r key (DeleteKey k) = (k = key)"
| "disturbs ixs r key (TtlPass now) = list_ex (due now r) ixs"

section \<open>Properties of the collection operations\<close>

subsection \<open>First-match list operations\<close>

lemma find_replace_first:
  "P r \<Longrightarrow> list_ex P xs \<Longrightarrow> find P (replace_first P r xs) = Some r"
  by (induction xs) auto

lemma find_snoc_fresh:
  "P r \<Longrightarrow> \<not> list_ex P xs \<Longrightarrow> find P (xs @ [r]) = Some r"
  by (induction xs) auto

lemma find_None_list_ex: "find P xs = None \<longleftrightarrow> \<not> list_ex P xs"
  by (induction xs) auto

lemma rest_replace_first:
  "P r \<Longrightarrow> filter (\<lambda>x. \<not> P x) (replace_first P r xs) = filter (\<lambda>x. \<not> P x) xs"
  by (induction xs) auto

lemma rest_remove_first:
  "filter (\<lambda>x. \<not> P x) (remove_first P xs) = filter (\<lambda>x. \<not> P x) xs"
  by (induction xs) auto

lemma remove_first_none: "\<not> list_ex P xs \<Longrightarrow> remove_first P xs = xs"
  by (induction xs) auto

lemma find_in_rest:
  assumes "\<And>x. Q x \<Longrightarrow> \<not> P x"
  shows "find Q (filter (\<lambda>x. \<not> P x) xs) = find Q xs"
  using assms by (induction xs) auto

lemma filter_in_rest:
  assumes "\<And>x. Q x \<Longrightarrow> \<not> P x"
  shows "filter Q (filter (\<lambda>x. \<not> P x) xs) = filter Q xs"
  using assms by (induction xs) auto

lemma find_filter_keep: "find P xs = Some r \<Longrightarrow> R r \<Longrightarrow> find P (filter R xs) = Some r"
  by (induction xs) (auto split: if_splits)

lemma length_replace_first: "length (replace_first P r xs) = length xs"
  by (induction xs) auto

lemma count_replace_first:
  "P r \<Longrightarrow> length (filter P (replace_first P r xs)) = length (filter P xs)"
  by (induction xs) auto

lemma count_remove_first: "length (filter P (remove_first P xs)) \<le> length (filter P xs)"
  by (induction xs) auto

lemma count_filter: "length (filter P (filter R xs)) \<le> length (filter P xs)"
  by (induction xs) auto

lemma filter_none: "\<not> list_ex P xs \<Longrightarrow> filter P xs = []"
  by (induction xs) auto

lemma single_then_gone:
  "length (filter P xs) \<le> 1 \<Longrightarrow> \<not> list_ex P (remove_first P xs)"
  by (induction xs) (auto simp: list_ex_iff filter_empty_conv split: if_splits)

lemma replace_first_split:
  "list_ex P xs \<Longrightarrow>
     \<exists>ys old zs. xs = ys @ old # zs \<and> \<not> list_ex P ys \<and> P old \<and>
        replace_first P r xs = ys @ r # zs"
proof (induction xs)
  case Nil
  then show ?case by simp
next
  case (Cons x xs)
  show ?case
  proof (cases "P x")
    case True
    then have "x # xs = [] @ x # xs \<and> \<not> list_ex P [] \<and> P x \<and>
        replace_first P r (x # xs) = [] @ r # xs" by simp
    then show ?thesis by blast
  next
    case False
    with Cons.prems have "list_ex P xs" by simp
    from Cons.IH [OF this] obtain ys old zs where
      h: "xs = ys @ old # zs" "\<not> list_ex P ys" "P old" "replace_first P r xs = ys @ r # zs"
      by blast
    with False have "x # xs = (x # ys) @ old # zs \<and> \<not> list_ex P (x # ys) \<and> P old \<and>
        replace_first P r (x # xs) = (x # ys) @ r # zs" by simp
    then show ?thesis by blast
  qed
qed

subsection \<open>Filters on the session identifier\<close>

lemma matches_sid:
  "matches [(sid_field, PyStr key)] d \<longleftrightarrow> map_of d sid_field = Some (PyStr key)"
  by (auto simp: matches_def split: option.splits)

lemma matches_sid_disjoint:
  "k \<noteq> key \<Longrightarrow> matches [(sid_field, PyStr k)] d \<Longrightarrow> \<not> matches [(sid_field, PyStr key)] d"
  by (simp add: matches_sid)

lemma matches_session_doc:
  "matches [(sid_field, PyStr k)] [(sid_field, PyStr key), (expiry_field, e), (data_field, data)]
     \<longleftrightarrow> k = key"
  by (auto simp: matches_sid)

lemma get_value_of_session_doc:
  "find_one [(sid_field, PyStr key)] c = Some [(sid_field, s), (expiry_field, e), (data_field, data)]
   \<Longrightarrow> get_value self p key c = data"
  by (simp add: get_value_def dict_get_def sid_field_def expiry_field_def data_field_def)

lemma find_one_via_rest:
  assumes "k \<noteq> key"
  shows "find_one [(sid_field, PyStr k)] c =
     find (matches [(sid_field, PyStr k)]) (filter (\<lambda>d. \<not> matches [(sid_field, PyStr key)] d) (docs c))"
  unfolding find_one_def
  by (rule find_in_rest [symmetric]) (rule matches_sid_disjoint [OF assms])

lemma selected_via_rest:
  assumes "k \<noteq> key"
  shows "filter (matches [(sid_field, PyStr k)]) (docs c) =
     filter (matches [(sid_field, PyStr k)]) (filter (\<lambda>d. \<not> matches [(sid_field, PyStr key)] d) (docs c))"
  by (rule filter_in_rest [symmetric]) (rule matches_sid_disjoint [OF assms])

subsection \<open>Stored values\<close>

lemma bson_value_text:
  "bson_value (PyStr s) = Inr (PyStr s)" "bson_value (PyBytes b) = Inr (PyBytes b)"
  by simp_all

lemma bson_value_Inr_same:
  assumes "bson_value v = Inr w" and "\<And>t. v \<noteq> PyDatetime t"
  shows "w = v"
  using assms by (cases v) (auto split: if_splits)

lemma bson_doc_session:
  assumes "bson_value data = Inr v"
  shows "bson_doc [(sid_field, PyStr key), (expiry_field, PyDatetime e), (data_field, data)] =
     Inr [(sid_field, PyStr key), (expiry_field, PyDatetime (e div 1000 * 1000)), (data_field, v)]"
  using assms by simp

lemma bson_doc_session_Inl:
  assumes "bson_value data = Inl err"
  shows "bson_doc [(sid_field, PyStr key), (expiry_field, PyDatetime e), (data_field, data)] = Inl err"
  using assms by simp

subsection \<open>The write\<close>

lemma timedelta_seconds_Inr: "timedelta_seconds n = Inr delta \<Longrightarrow> delta = n * 1000000"
  by (simp add: timedelta_seconds_def split: if_splits)

lemma datetime_add_Inr: "datetime_add t delta = Inr e \<Longrightarrow> e = t + delta"
  by (simp add: datetime_add_def split: if_splits)

lemma set_value_Inr_I:
  assumes "timedelta_seconds (expiry self) = Inr delta"
    and "datetime_add now delta = Inr e"
    and "bson_value data = Inr v"
  shows "set_value self now key data c =
     Inr (c\<lparr>docs :=
       if list_ex (matches [(sid_field, PyStr key)]) (docs c)
       then replace_first (matches [(sid_field, PyStr key)])
              [(sid_field, PyStr key), (expiry_field, PyDatetime (e div 1000 * 1000)),
               (data_field, v)] (docs c)
       else docs c @ [[(sid_field, PyStr key),
                       (expiry_field, PyDatetime (e div 1000 * 1000)), (data_field, v)]]\<rparr>)"
  using assms by (simp add: set_value_def replace_one_def)

lemma set_value_Inr_E:
  assumes "set_value self now key data c = Inr c1"
  obtains v where
    "timedelta_seconds (expiry self) = Inr (expiry self * 1000000)"
    "datetime_add now (expiry self * 1000000) = Inr (now + expiry self * 1000000)"
    "bson_value data = Inr v"
proof -
  from assms obtain delta where d: "timedelta_seconds (expiry self) = Inr delta"
    by (auto simp: set_value_def split: sum.splits)
  with assms obtain e where e: "datetime_add now delta = Inr e"
    by (auto simp: set_value_def split: sum.splits)
  have "\<exists>v. bson_value data = Inr v"
  proof (cases "bson_value data")
    case (Inl err)
    with assms d e show ?thesis by (simp add: set_value_def replace_one_def)
  next
    case (Inr v)
    then show ?thesis by blast
  qed
  then obtain v where v: "bson_value data = Inr v" by blast
  from d have "delta = expiry self * 1000000" by (rule timedelta_seconds_Inr)
  with d e v datetime_add_Inr [OF e] that show thesis by simp
qed

lemma docs_set_value:
  assumes "set_value self now key data c = Inr c1" and "bson_value data = Inr v"
  shows "docs c1 =
     (let P = matches [(sid_field, PyStr key)];
          r = [(sid_field, PyStr key),
               (expiry_field, PyDatetime ((now + expiry self * 1000000) div 1000 * 1000)),
               (data_field, v)]
      in if list_ex P (docs c) then replace_first P r (docs c) else docs c @ [r])"
proof -
  from assms(1) obtain w where
    h: "timedelta_seconds (expiry self) = Inr (expiry self * 1000000)"
       "datetime_add now (expiry self * 1000000) = Inr (now + expiry self * 1000000)"
    by (rule set_value_Inr_E)
  from set_value_Inr_I [OF h assms(2), of key c] assms(1) show ?thesis
    by (auto simp: Let_def)
qed

lemma indexes_set_value:
  assumes "set_value self now key data c = Inr c1"
  shows "indexes c1 = indexes c"
proof -
  from assms obtain v where
    h: "timedelta_seconds (expiry self) = Inr (expiry self * 1000000)"
       "datetime_add now (expiry self * 1000000) = Inr (now + expiry self * 1000000)"
       "bson_value data = Inr v"
    by (rule set_value_Inr_E)
  from set_value_Inr_I [OF h, of key c] assms show ?thesis by auto
qed

lemma find_one_set_value:
  assumes "set_value self now key data c = Inr c1" and "bson_value data = Inr v"
  shows "find_one [(sid_field, PyStr key)] c1 =
     Some [(sid_field, PyStr key),
           (expiry_field, PyDatetime ((now + expiry self * 1000000) div 1000 * 1000)),
           (data_field, v)]"
  by (simp add: find_one_def docs_set_value [OF assms] Let_def find_replace_first
      find_snoc_fresh matches_session_doc)

lemma rest_set_value:
  assumes "set_value self now key data c = Inr c1"
  shows "filter (\<lambda>d. \<not> matches [(sid_field, PyStr key)] d) (docs c1) =
   filter (\<lambda>d. \<not> matches [(sid_field, PyStr key)] d) (docs c)"
proof -
  from assms obtain v where v: "bson_value data = Inr v" by (rule set_value_Inr_E)
  show ?thesis
    by (simp add: docs_set_value [OF assms v] Let_def rest_replace_first matches_session_doc)
qed

lemma rest_outcome_set_value:
  "filter (\<lambda>d. \<not> matches [(sid_field, PyStr key)] d)
     (docs (outcome c (set_value self now key data c))) =
   filter (\<lambda>d. \<not> matches [(sid_field, PyStr key)] d) (docs c)"
proof (cases "set_value self now key data c")
  case (Inl err)
  then show ?thesis by (simp add: outcome_def)
next
  case (Inr c1)
  then show ?thesis by (simp add: outcome_def rest_set_value)
qed

lemma indexes_outcome_set_value:
  "indexes (outcome c (set_value self now key data c)) = indexes c"
proof (cases "set_value self now key data c")
  case (Inl err)
  then show ?thesis by (simp add: outcome_def)
next
  case (Inr c1)
  then show ?thesis by (simp add: outcome_def indexes_set_value)
qed

lemma rest_delete_key:
  "filter (\<lambda>d. \<not> matches [(sid_field, PyStr key)] d) (docs (delete_key self key c)) =
   filter (\<lambda>d. \<not> matches [(sid_field, PyStr key)] d) (docs c)"
  by (simp add: delete_key_def delete_one_def rest_remove_first)

lemma find_one_other_set_value:
  "k \<noteq> key \<Longrightarrow>
   find_one [(sid_field, PyStr k)] (outcome c (set_value self now key data c)) =
     find_one [(sid_field, PyStr k)] c"
  by (simp add: find_one_via_rest [of k key] rest_outcome_set_value)

lemma find_one_other_delete_key:
  "k \<noteq> key \<Longrightarrow> find_one [(sid_field, PyStr k)] (delete_key self key c) =
     find_one [(sid_field, PyStr k)] c"
  by (simp add: find_one_via_rest [of k key] rest_delete_key)

lemma selected_other_set_value:
  "k \<noteq> key \<Longrightarrow>
   filter (matches [(sid_field, PyStr k)]) (docs (outcome c (set_value self now key data c))) =
     filter (matches [(sid_field, PyStr k)]) (docs c)"
  by (simp add: selected_via_rest [of k key] rest_outcome_set_value)

lemma selected_other_delete_key:
  "k \<noteq> key \<Longrightarrow> filter (matches [(sid_field, PyStr k)]) (docs (delete_key self key c)) =
     filter (matches [(sid_field, PyStr k)]) (docs c)"
  by (simp add: selected_via_rest [of k key] rest_delete_key)

subsection \<open>The constructor and histories\<close>

lemma default_init_interface:
  "default_init True app =
     Inr (default_interface, listener ''after_server_start'' apply_session_indexes app, [])"
  by (simp add: default_init_def init_def default_interface_def)

lemma indexes_apply_op: "indexes (apply_op self x c) = indexes c"
  by (cases x)
    (simp_all add: indexes_outcome_set_value delete_key_def delete_one_def ttl_pass_def)

lemma undisturbed_step:
  assumes "find_one [(sid_field, PyStr key)] c = Some r"
    and "\<not> disturbs (indexes c) r key x"
  shows "find_one [(sid_field, PyStr key)] (apply_op self x c) = Some r"
proof (cases x)
  case (SetValue now k data)
  with assms show ?thesis by (simp add: find_one_other_set_value)
next
  case (DeleteKey k)
  with assms show ?thesis by (simp add: find_one_other_delete_key)
next
  case (TtlPass now)
  with assms show ?thesis by (simp add: find_one_def ttl_pass_def find_filter_keep)
qed

lemma undisturbed_run:
  assumes "find_one [(sid_field, PyStr key)] c = Some r"
    and "\<forall>x \<in> set ops. \<not> disturbs (indexes c) r key x"
  shows "find_one [(sid_field, PyStr key)] (run self ops c) = Some r"
  using assms
proof (induction ops arbitrary: c)
  case Nil
  then show ?case by simp
next
  case (Cons x xs)
  have "find_one [(sid_field, PyStr key)] (apply_op self x c) = Some r"
    using Cons.prems by (simp add: undisturbed_step)
  moreover have "\<forall>y \<in> set xs. \<not> disturbs (indexes (apply_op self x c)) r key y"
    using Cons.prems by (simp add: indexes_apply_op)
  ultimately show ?case using Cons.IH by simp
qed

text \<open>The definitions unfolded when the model is run on concrete input.\<close>

lemmas eval_defs = default_interface_def session_indexes_def set_value_def delete_key_def
  get_value_def find_one_def replace_one_def delete_one_def ttl_pass_def due_def matches_def
  dict_get_def sid_field_def expiry_field_def data_field_def empty_collection_def outcome_def
  timedelta_seconds_def datetime_add_def datetime_min_def datetime_max_def Let_def

section \<open>The claims\<close>

text \<open>
  C1. After a successful \<open>set(key, data)\<close>, \<open>get(key)\<close> returns the data as the
  collection holds it, at once and after any history in which no step writes or
  deletes \<open>key\<close> and no reclamation pass comes at a time when the stored record is due
  under an index of the collection. What the collection holds is \<open>data\<close> itself for
  every value that is not a date, so for every \<open>str\<close> and \<open>bytes\<close> payload. The
  collection before the write is arbitrary.
\<close>

theorem set_then_get_roundtrip:
  assumes "set_value self now key data c = Inr c1"
    and "bson_value data = Inr v"
    and "\<forall>x \<in> set ops. \<not> disturbs (indexes c)
      [(sid_field, PyStr key),
       (expiry_field, PyDatetime ((now + expiry self * 1000000) div 1000 * 1000)),
       (data_field, v)] key x"
  shows "get_value self p key (run self ops c1) = v \<and>
    ((\<forall>t. data \<noteq> PyDatetime t) \<longrightarrow> get_value self p key (run self ops c1) = data)"
proof -
  let ?r = "[(sid_field, PyStr key),
       (expiry_field, PyDatetime ((now + expiry self * 1000000) div 1000 * 1000)),
       (data_field, v)]"
  have "find_one [(sid_field, PyStr key)] c1 = Some ?r"
    using assms(1,2) by (rule find_one_set_value)
  moreover have "\<forall>x \<in> set ops. \<not> disturbs (indexes c1) ?r key x"
    using assms(3) by (simp add: indexes_set_value [OF assms(1)])
  ultimately have "find_one [(sid_field, PyStr key)] (run self ops c1) = Some ?r"
    by (rule undisturbed_run)
  then have g: "get_value self p key (run self ops c1) = v"
    by (rule get_value_of_session_doc)
  have "(\<forall>t. data \<noteq> PyDatetime t) \<longrightarrow> v = data"
    using bson_value_Inr_same [OF assms(2)] by blast
  with g show ?thesis by simp
qed

theorem set_then_get_roundtrip_witness:
  "set_value default_interface 1762272000123456 ''abc123'' (PyBytes ''user=42'')
      \<lparr>docs = [], indexes = session_indexes\<rparr> =
     Inr \<lparr>docs = [[(sid_field, PyStr ''abc123''),
                    (expiry_field, PyDatetime 1764864000123000),
                    (data_field, PyBytes ''user=42'')]],
          indexes = session_indexes\<rparr> \<and>
   bson_value (PyBytes ''user=42'') = Inr (PyBytes ''user=42'') \<and>
   \<not> disturbs session_indexes
      [(sid_field, PyStr ''abc123''),
       (expiry_field, PyDatetime 1764864000123000),
       (data_field, PyBytes ''user=42'')] ''abc123'' (TtlPass 1764864000122999) \<and>
   get_value default_interface '''' ''abc123''
     (run default_interface
        [SetValue 1762272000200000 ''f00d'' (PyStr ''{}''), DeleteKey ''f00d'',
         TtlPass 1764864000122999]
        \<lparr>docs = [[(sid_field, PyStr ''abc123''),
                   (expiry_field, PyDatetime 1764864000123000),
                   (data_field, PyBytes ''user=42'')]],
         indexes = session_indexes\<rparr>)
     = PyBytes ''user=42''"
proof -
  have s: "set_value default_interface 1762272000123456 ''abc123'' (PyBytes ''user=42'')
      \<lparr>docs = [], indexes = session_indexes\<rparr> =
     Inr \<lparr>docs = [[(sid_field, PyStr ''abc123''),
                    (expiry_field, PyDatetime 1764864000123000),
                    (data_field, PyBytes ''user=42'')]],
          indexes = session_indexes\<rparr>"
    by (simp add: eval_defs)
  have b: "bson_value (PyBytes ''user=42'') = Inr (PyBytes ''user=42'')"
    by simp
  have h: "\<forall>x \<in> set [SetValue 1762272000200000 ''f00d'' (PyStr ''{}''), DeleteKey ''f00d'',
                       TtlPass 1764864000122999].
      \<not> disturbs (indexes \<lparr>docs = [], indexes = session_indexes\<rparr>)
        [(sid_field, PyStr ''abc123''),
         (expiry_field,
          PyDatetime ((1762272000123456 + expiry default_interface * 1000000) div 1000 * 1000)),
         (data_field, PyBytes ''user=42'')] ''abc123'' x"
    by (simp add: eval_defs)
  have d: "\<not> disturbs session_indexes
      [(sid_field, PyStr ''abc123''),
       (expiry_field, PyDatetime 1764864000123000),
       (data_field, PyBytes ''user=42'')] ''abc123'' (TtlPass 1764864000122999)"
    by (simp add: eval_defs)
  from s b d set_then_get_roundtrip [OF s b h, where p = "''''"] show ?thesis
    by simp
qed

text \<open>
  C2, as stated, fails in two ways. With a time-to-live that carries the expiry past
  \<open>datetime.max\<close> the write raises \<open>OverflowError\<close> and no record is inserted. And
  the record a successful write leaves does not hold the expiry \<open>now + ttl\<close> itself:
  for a write at 1762272000123456 with the default time-to-live of 2592000 seconds
  the sum is 1764864000123456, and the collection holds 1764864000123000.
\<close>

theorem set_value_replaces_record_counterexample:
  "set_value (default_interface\<lparr>expiry := 253402300800\<rparr>) 1762272000123456 ''cafe''
      (PyStr ''{}'') empty_collection = Inl OverflowError \<and>
   find_one [(sid_field, PyStr ''cafe'')]
     (outcome empty_collection
        (set_value (default_interface\<lparr>expiry := 253402300800\<rparr>) 1762272000123456 ''cafe''
           (PyStr ''{}'') empty_collection)) = None \<and>
   set_value default_interface 1762272000123456 ''cafe'' (PyStr ''{}'') empty_collection =
     Inr \<lparr>docs = [[(sid_field, PyStr ''cafe''), (expiry_field, PyDatetime 1764864000123000),
                    (data_field, PyStr ''{}'')]],
          indexes = []\<rparr> \<and>
   1762272000123456 + expiry default_interface * 1000000 = (1764864000123456 :: int)"
  by (simp add: eval_defs)

text \<open>
  C2, amended. When the time-to-live is a valid \<open>timedelta\<close>, the current time plus
  the time-to-live in seconds is a valid \<open>datetime\<close> \<open>e\<close>, and the data can be stored,
  \<open>set(key, data)\<close> succeeds and leaves, as the record found under \<open>key\<close>, exactly the
  document of the three fields \<open>sid\<close>, \<open>expiry\<close> and \<open>data\<close>, with \<open>e\<close> cut to the
  whole millisecond as the expiry. When no record existed, the document is inserted;
  when one existed, the first such record is replaced in its place by the whole new
  document. The indexes stay as they were. A second write of the same data at a time
  \<open>now'\<close> succeeds as well and stores the expiry computed from \<open>now'\<close>.
\<close>

theorem set_value_replaces_record:
  fixes self :: interface and now now' e e' delta :: int and key :: string
    and data v :: pyval and c :: collection
  assumes "timedelta_seconds (expiry self) = Inr delta"
    and "datetime_add now delta = Inr e"
    and "datetime_add now' delta = Inr e'"
    and "bson_value data = Inr v"
  defines "r \<equiv> [(sid_field, PyStr key), (expiry_field, PyDatetime (e div 1000 * 1000)),
                 (data_field, v)]"
  shows "e = now + expiry self * 1000000 \<and>
    (\<exists>c1. set_value self now key data c = Inr c1 \<and>
       find_one [(sid_field, PyStr key)] c1 = Some r \<and>
       (find_one [(sid_field, PyStr key)] c = None \<longrightarrow> docs c1 = docs c @ [r]) \<and>
       (find_one [(sid_field, PyStr key)] c \<noteq> None \<longrightarrow>
          (\<exists>before old after.
             docs c = before @ old # after \<and>
             find (matches [(sid_field, PyStr key)]) before = None \<and>
             matches [(sid_field, PyStr key)] old \<and>
             docs c1 = before @ r # after)) \<and>
       indexes c1 = indexes c \<and>
       (\<exists>c2. set_value self now' key data c1 = Inr c2 \<and>
          find_one [(sid_field, PyStr key)] c2 =
            Some [(sid_field, PyStr key),
                  (expiry_field, PyDatetime ((now' + expiry self * 1000000) div 1000 * 1000)),
                  (data_field, v)]))"
proof -
  have d: "delta = expiry self * 1000000"
    using assms(1) by (rule timedelta_seconds_Inr)
  have e: "e = now + expiry self * 1000000"
    using datetime_add_Inr [OF assms(2)] d by simp
  let ?P = "matches [(sid_field, PyStr key)]"
  define c1 where "c1 = c\<lparr>docs :=
       if list_ex ?P (docs c) then replace_first ?P r (docs c) else docs c @ [r]\<rparr>"
  have s1: "set_value self now key data c = Inr c1"
    unfolding c1_def r_def by (rule set_value_Inr_I [OF assms(1,2,4)])
  have f1: "find_one [(sid_field, PyStr key)] c1 = Some r"
    using find_one_set_value [OF s1 assms(4)] e by (simp add: r_def)
  have ins: "find_one [(sid_field, PyStr key)] c = None \<longrightarrow> docs c1 = docs c @ [r]"
    by (simp add: find_one_def find_None_list_ex c1_def)
  have rep: "find_one [(sid_field, PyStr key)] c \<noteq> None \<longrightarrow>
       (\<exists>before old after.
          docs c = before @ old # after \<and>
          find ?P before = None \<and> ?P old \<and> docs c1 = before @ r # after)"
  proof
    assume "find_one [(sid_field, PyStr key)] c \<noteq> None"
    then have ex: "list_ex ?P (docs c)"
      by (simp add: find_one_def find_None_list_ex)
    from replace_first_split [OF ex, of r] obtain ys old zs where
      "docs c = ys @ old # zs" "\<not> list_ex ?P ys" "?P old"
      "replace_first ?P r (docs c) = ys @ r # zs"
      by blast
    with ex have "docs c = ys @ old # zs \<and> find ?P ys = None \<and> ?P old \<and>
          docs c1 = ys @ r # zs"
      by (simp add: c1_def find_None_list_ex)
    then show "\<exists>before old after.
          docs c = before @ old # after \<and>
          find ?P before = None \<and> ?P old \<and> docs c1 = before @ r # after"
      by blast
  qed
  have ix: "indexes c1 = indexes c"
    by (simp add: c1_def)
  obtain c2 where s2: "set_value self now' key data c1 = Inr c2"
    using set_value_Inr_I [OF assms(1,3,4), of key c1] by blast
  have f2: "find_one [(sid_field, PyStr key)] c2 =
            Some [(sid_field, PyStr key),
                  (expiry_field, PyDatetime ((now' + expiry self * 1000000) div 1000 * 1000)),
                  (data_field, v)]"
    using s2 assms(4) by (rule find_one_set_value)
  have again: "\<exists>c2. set_value self now' key data c1 = Inr c2 \<and>
          find_one [(sid_field, PyStr key)] c2 =
            Some [(sid_field, PyStr key),
                  (expiry_field, PyDatetime ((now' + expiry self * 1000000) div 1000 * 1000)),
                  (data_field, v)]"
    using s2 f2 by (intro exI [of _ c2] conjI)
  show ?thesis
    by (intro conjI exI [of _ c1] e s1 f1 ins rep ix again)
qed

theorem set_value_replaces_record_witness:
  "timedelta_seconds (expiry default_interface) = Inr 2592000000000 \<and>
   datetime_add 1762272000123456 2592000000000 = Inr 1764864000123456 \<and>
   datetime_add 1762272000987654 2592000000000 = Inr 1764864000987654 \<and>
   bson_value (PyStr ''{}'') = Inr (PyStr ''{}'') \<and>
   set_value default_interface 1762272000123456 ''cafe'' (PyStr ''{}'') empty_collection =
     Inr \<lparr>docs = [[(sid_field, PyStr ''cafe''), (expiry_field, PyDatetime 1764864000123000),
                    (data_field, PyStr ''{}'')]],
          indexes = []\<rparr> \<and>
   set_value default_interface 1762272000987654 ''cafe'' (PyStr ''{}'')
     \<lparr>docs = [[(sid_field, PyStr ''cafe''), (expiry_field, PyDatetime 1764864000123000),
                (data_field, PyStr ''{}'')]],
      indexes = []\<rparr> =
     Inr \<lparr>docs = [[(sid_field, PyStr ''cafe''), (expiry_field, PyDatetime 1764864000987000),
                    (data_field, PyStr ''{}'')]],
          indexes = []\<rparr>"
proof -
  have a: "timedelta_seconds (expiry default_interface) = Inr 2592000000000"
    by (simp add: eval_defs)
  have b: "datetime_add 1762272000123456 2592000000000 = Inr 1764864000123456"
    by (simp add: eval_defs)
  have b': "datetime_add 1762272000987654 2592000000000 = Inr 1764864000987654"
    by (simp add: eval_defs)
  have v: "bson_value (PyStr ''{}'') = Inr (PyStr ''{}'')"
    by simp
  have s1: "set_value default_interface 1762272000123456 ''cafe'' (PyStr ''{}'') empty_collection =
     Inr \<lparr>docs = [[(sid_field, PyStr ''cafe''), (expiry_field, PyDatetime 1764864000123000),
                    (data_field, PyStr ''{}'')]],
          indexes = []\<rparr>"
    by (simp add: eval_defs)
  have s2: "set_value default_interface 1762272000987654 ''cafe'' (PyStr ''{}'')
     \<lparr>docs = [[(sid_field, PyStr ''cafe''), (expiry_field, PyDatetime 1764864000123000),
                (data_field, PyStr ''{}'')]],
      indexes = []\<rparr> =
     Inr \<lparr>docs = [[(sid_field, PyStr ''cafe''), (expiry_field, PyDatetime 1764864000987000),
                    (data_field, PyStr ''{}'')]],
          indexes = []\<rparr>"
    by (simp add: eval_defs)
  note t = set_value_replaces_record [OF a b b' v, where key = "''cafe''" and c = empty_collection]
  from a b b' v s1 s2 t show ?thesis
    by (intro conjI)
qed

text \<open>
  C3. After \<open>set(key, data1)\<close> and then \<open>set(key, data2)\<close>, both successful,
  \<open>get(key)\<close> returns the second data as the collection holds it, which is \<open>data2\<close>
  itself unless \<open>data2\<close> is a date. The record found under \<open>key\<close> is the document of
  the second write alone, and the second write adds no document to the collection.
\<close>

theorem second_set_wins:
  assumes "set_value self now1 key data1 c = Inr c1"
    and "set_value self now2 key data2 c1 = Inr c2"
    and "bson_value data2 = Inr v2"
  shows "get_value self p key c2 = v2 \<and>
   ((\<forall>t. data2 \<noteq> PyDatetime t) \<longrightarrow> get_value self p key c2 = data2) \<and>
   find_one [(sid_field, PyStr key)] c2 =
     Some [(sid_field, PyStr key),
           (expiry_field, PyDatetime ((now2 + expiry self * 1000000) div 1000 * 1000)),
           (data_field, v2)] \<and>
   length (docs c2) = length (docs c1)"
proof -
  have f: "find_one [(sid_field, PyStr key)] c2 =
     Some [(sid_field, PyStr key),
           (expiry_field, PyDatetime ((now2 + expiry self * 1000000) div 1000 * 1000)),
           (data_field, v2)]"
    using assms(2,3) by (rule find_one_set_value)
  then have g: "get_value self p key c2 = v2"
    by (rule get_value_of_session_doc)
  have same: "(\<forall>t. data2 \<noteq> PyDatetime t) \<longrightarrow> v2 = data2"
    using bson_value_Inr_same [OF assms(3)] by blast
  obtain v1 where v1: "bson_value data1 = Inr v1"
    using assms(1) by (rule set_value_Inr_E)
  have "find_one [(sid_field, PyStr key)] c1 \<noteq> None"
    by (simp add: find_one_set_value [OF assms(1) v1])
  then have "list_ex (matches [(sid_field, PyStr key)]) (docs c1)"
    by (simp add: find_one_def find_None_list_ex)
  then have l: "length (docs c2) = length (docs c1)"
    by (simp add: docs_set_value [OF assms(2,3)] length_replace_first)
  from f g same l show ?thesis by simp
qed

theorem second_set_wins_witness:
  "set_value default_interface 1762272000123456 ''abc123'' (PyBytes ''user=42'')
      empty_collection =
     Inr \<lparr>docs = [[(sid_field, PyStr ''abc123''), (expiry_field, PyDatetime 1764864000123000),
                    (data_field, PyBytes ''user=42'')]],
          indexes = []\<rparr> \<and>
   set_value default_interface 1762272000987654 ''abc123'' (PyBytes ''user=43'')
     \<lparr>docs = [[(sid_field, PyStr ''abc123''), (expiry_field, PyDatetime 1764864000123000),
                (data_field, PyBytes ''user=42'')]],
      indexes = []\<rparr> =
     Inr \<lparr>docs = [[(sid_field, PyStr ''abc123''), (expiry_field, PyDatetime 1764864000987000),
                    (data_field, PyBytes ''user=43'')]],
          indexes = []\<rparr> \<and>
   bson_value (PyBytes ''user=43'') = Inr (PyBytes ''user=43'') \<and>
   get_value default_interface '''' ''abc123''
     \<lparr>docs = [[(sid_field, PyStr ''abc123''), (expiry_field, PyDatetime 1764864000987000),
                (data_field, PyBytes ''user=43'')]],
      indexes = []\<rparr> = PyBytes ''user=43''"
proof -
  have s1: "set_value default_interface 1762272000123456 ''abc123'' (PyBytes ''user=42'')
      empty_collection =
     Inr \<lparr>docs = [[(sid_field, PyStr ''abc123''), (expiry_field, PyDatetime 1764864000123000),
                    (data_field, PyBytes ''user=42'')]],
          indexes = []\<rparr>"
    by (simp add: eval_defs)
  have s2: "set_value default_interface 1762272000987654 ''abc123'' (PyBytes ''user=43'')
     \<lparr>docs = [[(sid_field, PyStr ''abc123''), (expiry_field, PyDatetime 1764864000123000),
                (data_field, PyBytes ''user=42'')]],
      indexes = []\<rparr> =
     Inr \<lparr>docs = [[(sid_field, PyStr ''abc123''), (expiry_field, PyDatetime 1764864000987000),
                    (data_field, PyBytes ''user=43'')]],
          indexes = []\<rparr>"
    by (simp add: eval_defs)
  have b: "bson_value (PyBytes ''user=43'') = Inr (PyBytes ''user=43'')"
    by simp
  from s1 s2 b second_set_wins [OF s1 s2 b, where p = "''''"] show ?thesis
    by simp
qed

lemma count_set_value:
  assumes "length (filter (matches [(sid_field, PyStr k)]) (docs c)) \<le> 1"
  shows "length (filter (matches [(sid_field, PyStr k)])
           (docs (outcome c (set_value self now key data c)))) \<le> 1"
proof (cases "k = key")
  case False
  with assms show ?thesis by (simp add: selected_other_set_value)
next
  case True
  show ?thesis
  proof (cases "set_value self now key data c")
    case (Inl err)
    with assms show ?thesis by (simp add: outcome_def)
  next
    case (Inr c1)
    then obtain v where v: "bson_value data = Inr v" by (rule set_value_Inr_E)
    show ?thesis
    proof (cases "list_ex (matches [(sid_field, PyStr key)]) (docs c)")
      case True
      with assms \<open>k = key\<close> Inr show ?thesis
        by (simp add: outcome_def docs_set_value [OF Inr v] count_replace_first
            matches_session_doc)
    next
      case False
      with \<open>k = key\<close> Inr show ?thesis
        by (simp add: outcome_def docs_set_value [OF Inr v] filter_none matches_session_doc)
    qed
  qed
qed

lemma count_delete_key:
  assumes "length (filter (matches [(sid_field, PyStr k)]) (docs c)) \<le> 1"
  shows "length (filter (matches [(sid_field, PyStr k)]) (docs (delete_key self key c))) \<le> 1"
proof (cases "k = key")
  case False
  with assms show ?thesis by (simp add: selected_other_delete_key)
next
  case True
  have "length (filter (matches [(sid_field, PyStr key)]) (docs (delete_key self key c)))
      \<le> length (filter (matches [(sid_field, PyStr key)]) (docs c))"
    by (simp add: delete_key_def delete_one_def count_remove_first)
  with assms True show ?thesis by simp
qed

lemma count_ttl_pass:
  assumes "length (filter (matches [(sid_field, PyStr k)]) (docs c)) \<le> 1"
  shows "length (filter (matches [(sid_field, PyStr k)]) (docs (ttl_pass now c))) \<le> 1"
proof -
  have "length (filter (matches [(sid_field, PyStr k)]) (docs (ttl_pass now c)))
      \<le> length (filter (matches [(sid_field, PyStr k)]) (docs c))"
    by (simp add: ttl_pass_def count_filter del: filter_filter)
  with assms show ?thesis by simp
qed

lemma count_apply_op:
  "length (filter (matches [(sid_field, PyStr k)]) (docs c)) \<le> 1 \<Longrightarrow>
   length (filter (matches [(sid_field, PyStr k)]) (docs (apply_op self x c))) \<le> 1"
  by (cases x) (simp_all add: count_set_value count_delete_key count_ttl_pass del: One_nat_def)

lemma count_run:
  "length (filter (matches [(sid_field, PyStr k)]) (docs c)) \<le> 1 \<Longrightarrow>
   length (filter (matches [(sid_field, PyStr k)]) (docs (run self ops c))) \<le> 1"
  by (induction ops arbitrary: c) (simp_all add: count_apply_op del: One_nat_def)

lemma count_run_from_empty:
  "docs c0 = [] \<Longrightarrow>
   length (filter (matches [(sid_field, PyStr k)]) (docs (run self ops c0))) \<le> 1"
  by (rule count_run) simp

lemma get_value_after_delete:
  assumes "length (filter (matches [(sid_field, PyStr key)]) (docs c)) \<le> 1"
  shows "get_value self p key (delete_key self key c) = PyNone"
proof -
  have "\<not> list_ex (matches [(sid_field, PyStr key)])
          (remove_first (matches [(sid_field, PyStr key)]) (docs c))"
    using assms by (rule single_then_gone)
  then have "find_one [(sid_field, PyStr key)] (delete_key self key c) = None"
    by (simp add: find_one_def delete_key_def delete_one_def find_None_list_ex)
  then show ?thesis by (simp add: get_value_def)
qed

text \<open>
  C4. In every collection reached from one without documents by a history of writes,
  deletes and reclamation passes, at most one document is selected by the filter on
  any \<open>sid\<close>. Each step keeps the bound by itself: from a collection with at most one
  record under \<open>k\<close>, neither a write nor a delete, of \<open>k\<close> or of another key, leaves
  more than one, whether the write returns or raises.
\<close>

theorem one_record_per_sid:
  "(docs c0 = [] \<longrightarrow>
      length (filter (matches [(sid_field, PyStr k)]) (docs (run self ops c0))) \<le> 1) \<and>
   (length (filter (matches [(sid_field, PyStr k)]) (docs c)) \<le> 1 \<longrightarrow>
      length (filter (matches [(sid_field, PyStr k)])
        (docs (outcome c (set_value self now key data c)))) \<le> 1 \<and>
      (\<forall>c1. set_value self now key data c = Inr c1 \<longrightarrow>
         length (filter (matches [(sid_field, PyStr k)]) (docs c1)) \<le> 1) \<and>
      length (filter (matches [(sid_field, PyStr k)]) (docs (delete_key self key c))) \<le> 1)"
proof -
  have a: "docs c0 = [] \<longrightarrow>
      length (filter (matches [(sid_field, PyStr k)]) (docs (run self ops c0))) \<le> 1"
    by (rule impI) (rule count_run_from_empty)
  have b: "length (filter (matches [(sid_field, PyStr k)]) (docs c)) \<le> 1 \<longrightarrow>
      length (filter (matches [(sid_field, PyStr k)])
        (docs (outcome c (set_value self now key data c)))) \<le> 1 \<and>
      (\<forall>c1. set_value self now key data c = Inr c1 \<longrightarrow>
         length (filter (matches [(sid_field, PyStr k)]) (docs c1)) \<le> 1) \<and>
      length (filter (matches [(sid_field, PyStr k)]) (docs (delete_key self key c))) \<le> 1"
  proof (intro impI conjI allI)
    assume h: "length (filter (matches [(sid_field, PyStr k)]) (docs c)) \<le> 1"
    show "length (filter (matches [(sid_field, PyStr k)])
        (docs (outcome c (set_value self now key data c)))) \<le> 1"
      using h by (rule count_set_value)
    show "length (filter (matches [(sid_field, PyStr k)]) (docs (delete_key self key c))) \<le> 1"
      using h by (rule count_delete_key)
    fix c1 assume "set_value self now key data c = Inr c1"
    with count_set_value [OF h, of self now key data]
    show "length (filter (matches [(sid_field, PyStr k)]) (docs c1)) \<le> 1"
      by (simp add: outcome_def)
  qed
  from a b show ?thesis by (rule conjI)
qed

theorem one_record_per_sid_witness:
  "docs empty_collection = [] \<and>
   length (filter (matches [(sid_field, PyStr ''a1'')])
     (docs (run default_interface
        [SetValue 1762272000000001 ''a1'' (PyStr ''x''),
         SetValue 1762272000000002 ''b2'' (PyStr ''y''),
         SetValue 1762272000000003 ''a1'' (PyStr ''z''), DeleteKey ''b2'',
         SetValue 1762272000000004 ''b2'' (PyStr ''w'')]
        empty_collection))) = 1"
  using one_record_per_sid [of empty_collection "''a1''" default_interface
        "[SetValue 1762272000000001 ''a1'' (PyStr ''x''),
         SetValue 1762272000000002 ''b2'' (PyStr ''y''),
         SetValue 1762272000000003 ''a1'' (PyStr ''z''), DeleteKey ''b2'',
         SetValue 1762272000000004 ''b2'' (PyStr ''w'')]"]
  by (simp add: eval_defs)

text \<open>
  C5. \<open>delete(key)\<close> followed by \<open>get(key)\<close> returns \<open>None\<close>, whether or not a record
  was there: in every collection reached from one without documents, and more
  generally in every collection that holds at most one record under \<open>key\<close>.
\<close>

theorem delete_then_get_absent:
  "(docs c0 = [] \<longrightarrow>
      get_value self p key (delete_key self key (run self ops c0)) = PyNone) \<and>
   (length (filter (matches [(sid_field, PyStr key)]) (docs c)) \<le> 1 \<longrightarrow>
      get_value self p key (delete_key self key c) = PyNone)"
proof -
  have "docs c0 = [] \<longrightarrow> get_value self p key (delete_key self key (run self ops c0)) = PyNone"
  proof
    assume "docs c0 = []"
    then have "length (filter (matches [(sid_field, PyStr key)]) (docs (run self ops c0))) \<le> 1"
      by (rule count_run_from_empty)
    then show "get_value self p key (delete_key self key (run self ops c0)) = PyNone"
      by (rule get_value_after_delete)
  qed
  moreover have "length (filter (matches [(sid_field, PyStr key)]) (docs c)) \<le> 1 \<longrightarrow>
      get_value self p key (delete_key self key c) = PyNone"
    by (simp add: get_value_after_delete)
  ultimately show ?thesis by blast
qed

theorem delete_then_get_absent_witness:
  "docs empty_collection = [] \<and>
   get_value default_interface '''' ''abc123''
     (run default_interface [SetValue 1762272000123456 ''abc123'' (PyBytes ''user=42'')]
        empty_collection) =
     PyBytes ''user=42'' \<and>
   get_value default_interface '''' ''abc123''
     (delete_key default_interface ''abc123''
        (run default_interface [SetValue 1762272000123456 ''abc123'' (PyBytes ''user=42'')]
           empty_collection)) =
     PyNone \<and>
   get_value default_interface '''' ''abc123''
     (delete_key default_interface ''abc123'' (run default_interface [] empty_collection)) =
     PyNone"
  using delete_then_get_absent [of empty_collection default_interface "''''" "''abc123''"
      "[SetValue 1762272000123456 ''abc123'' (PyBytes ''user=42'')]"]
    delete_then_get_absent [of empty_collection default_interface "''''" "''abc123''" "[]"]
  by (simp add: eval_defs)

text \<open>
  The bound on the records under \<open>key\<close> is what the statement above rests on:
  \<open>delete_one\<close> removes a single document, so in a collection that was handed two
  documents with one \<open>sid\<close> the second is found after the delete. No history of the
  interface's own operations produces such a collection.
\<close>

lemma delete_key_removes_one_document:
  "get_value default_interface '''' ''k''
     (delete_key default_interface ''k''
        \<lparr>docs = [[(sid_field, PyStr ''k''), (data_field, PyStr ''first'')],
                 [(sid_field, PyStr ''k''), (data_field, PyStr ''second'')]],
         indexes = []\<rparr>) = PyStr ''second''"
  by (simp add: eval_defs)

text \<open>
  C6. When no record exists under \<open>key\<close>, \<open>delete(key)\<close> returns the collection as it
  was: documents and indexes are unchanged, and the call has no failing branch.
\<close>

theorem delete_absent_is_noop:
  "find_one [(sid_field, PyStr key)] c = None \<Longrightarrow> delete_key self key c = c"
  by (simp add: find_one_def find_None_list_ex delete_key_def delete_one_def remove_first_none)

theorem delete_absent_is_noop_witness:
  "find_one [(sid_field, PyStr ''gone'')]
     \<lparr>docs = [[(sid_field, PyStr ''abc123''), (expiry_field, PyDatetime 1764864000123000),
                (data_field, PyBytes ''user=42'')]],
      indexes = session_indexes\<rparr> = None \<and>
   delete_key default_interface ''gone''
     \<lparr>docs = [[(sid_field, PyStr ''abc123''), (expiry_field, PyDatetime 1764864000123000),
                (data_field, PyBytes ''user=42'')]],
      indexes = session_indexes\<rparr> =
     \<lparr>docs = [[(sid_field, PyStr ''abc123''), (expiry_field, PyDatetime 1764864000123000),
                (data_field, PyBytes ''user=42'')]],
      indexes = session_indexes\<rparr>"
proof -
  have h: "find_one [(sid_field, PyStr ''gone'')]
     \<lparr>docs = [[(sid_field, PyStr ''abc123''), (expiry_field, PyDatetime 1764864000123000),
                (data_field, PyBytes ''user=42'')]],
      indexes = session_indexes\<rparr> = None"
    by (simp add: eval_defs)
  from h delete_absent_is_noop [OF h, of default_interface] show ?thesis by simp
qed

text \<open>
  C10. \<open>set(key, data)\<close> and \<open>delete(key)\<close> leave the documents that the filter on
  \<open>key\<close> does not select as they were, in content and in order, whether the write
  returns or raises. Hence what is found and what \<open>get\<close> returns under any other key
  \<open>k\<close> is the same before and after.
\<close>

theorem other_sids_untouched:
  "filter (\<lambda>d. \<not> matches [(sid_field, PyStr key)] d)
     (docs (outcome c (set_value self now key data c))) =
     filter (\<lambda>d. \<not> matches [(sid_field, PyStr key)] d) (docs c) \<and>
   (\<forall>c1. set_value self now key data c = Inr c1 \<longrightarrow>
      filter (\<lambda>d. \<not> matches [(sid_field, PyStr key)] d) (docs c1) =
        filter (\<lambda>d. \<not> matches [(sid_field, PyStr key)] d) (docs c)) \<and>
   filter (\<lambda>d. \<not> matches [(sid_field, PyStr key)] d) (docs (delete_key self key c)) =
     filter (\<lambda>d. \<not> matches [(sid_field, PyStr key)] d) (docs c) \<and>
   (k \<noteq> key \<longrightarrow>
      find_one [(sid_field, PyStr k)] (outcome c (set_value self now key data c)) =
        find_one [(sid_field, PyStr k)] c \<and>
      find_one [(sid_field, PyStr k)] (delete_key self key c) =
        find_one [(sid_field, PyStr k)] c \<and>
      get_value self p k (outcome c (set_value self now key data c)) = get_value self p k c \<and>
      get_value self p k (delete_key self key c) = get_value self p k c)"
proof -
  have a: "k \<noteq> key \<longrightarrow>
      find_one [(sid_field, PyStr k)] (outcome c (set_value self now key data c)) =
        find_one [(sid_field, PyStr k)] c \<and>
      find_one [(sid_field, PyStr k)] (delete_key self key c) =
        find_one [(sid_field, PyStr k)] c \<and>
      get_value self p k (outcome c (set_value self now key data c)) = get_value self p k c \<and>
      get_value self p k (delete_key self key c) = get_value self p k c"
    by (simp add: get_value_def find_one_other_set_value find_one_other_delete_key)
  have b: "\<forall>c1. set_value self now key data c = Inr c1 \<longrightarrow>
      filter (\<lambda>d. \<not> matches [(sid_field, PyStr key)] d) (docs c1) =
        filter (\<lambda>d. \<not> matches [(sid_field, PyStr key)] d) (docs c)"
    by (intro allI impI) (rule rest_set_value)
  show ?thesis
    by (intro conjI rest_outcome_set_value b rest_delete_key a)
qed

theorem other_sids_untouched_witness:
  "''b2'' \<noteq> ''a1'' \<and>
   get_value default_interface '''' ''b2''
     (outcome
        (run default_interface
           [SetValue 1762272000000001 ''a1'' (PyStr ''x''),
            SetValue 1762272000000002 ''b2'' (PyStr ''y'')] empty_collection)
        (set_value default_interface 1762272000000005 ''a1'' (PyStr ''new'')
           (run default_interface
              [SetValue 1762272000000001 ''a1'' (PyStr ''x''),
               SetValue 1762272000000002 ''b2'' (PyStr ''y'')] empty_collection))) =
     PyStr ''y'' \<and>
   get_value default_interface '''' ''b2''
     (delete_key default_interface ''a1''
        (run default_interface
           [SetValue 1762272000000001 ''a1'' (PyStr ''x''),
            SetValue 1762272000000002 ''b2'' (PyStr ''y'')] empty_collection)) = PyStr ''y''"
  using other_sids_untouched [of "''a1''"
      "run default_interface
           [SetValue 1762272000000001 ''a1'' (PyStr ''x''),
            SetValue 1762272000000002 ''b2'' (PyStr ''y'')] empty_collection"
      default_interface 1762272000000005 "PyStr ''new''" "''b2''" "''''"]
  by (simp add: eval_defs)

text \<open>
  C7. Whatever value the caller passes as \<open>httponly\<close>, the constructor (with
  \<open>sanic_motor\<close> importable) hands the constant \<open>True\<close> to the base interface. It
  issues the deprecation warning, once, when the argument is not the object \<open>True\<close>,
  and no warning when it is.
\<close>

theorem httponly_hardcoded_true:
  "\<exists>self app'.
     init True app coll domain' expiry' httponly' cookie_name' sessioncookie' samesite'
       session_name' =
       Inr (self, app',
            if httponly' = PyBool True then [] else [DeprecationWarning httponly_message]) \<and>
     httponly self = True"
  by (simp add: init_def)

theorem httponly_hardcoded_true_witness:
  "httponly (fst (projr (init True \<lparr>listeners = []\<rparr> ''session'' PyNone 60 (PyBool False)
       ''session'' False PyNone ''session''))) = True \<and>
   snd (snd (projr (init True \<lparr>listeners = []\<rparr> ''session'' PyNone 60 (PyBool False)
       ''session'' False PyNone ''session''))) = [DeprecationWarning httponly_message] \<and>
   snd (snd (projr (init True \<lparr>listeners = []\<rparr> ''session'' PyNone 60 (PyInt 1)
       ''session'' False PyNone ''session''))) = [DeprecationWarning httponly_message] \<and>
   snd (snd (projr (init True \<lparr>listeners = []\<rparr> ''session'' PyNone 60 (PyBool True)
       ''session'' False PyNone ''session''))) = []"
  using httponly_hardcoded_true [of "\<lparr>listeners = []\<rparr>" "''session''" PyNone 60 "PyBool False"
      "''session''" False PyNone "''session''"]
    httponly_hardcoded_true [of "\<lparr>listeners = []\<rparr>" "''session''" PyNone 60 "PyInt 1"
      "''session''" False PyNone "''session''"]
    httponly_hardcoded_true [of "\<lparr>listeners = []\<rparr>" "''session''" PyNone 60 "PyBool True"
      "''session''" False PyNone "''session''"]
  by auto







text \<open>
  C9. \<open>_get_value\<close> returns the same value for any two prefixes, on every key and
  every collection; and the prefix the constructor hands to the base interface is the
  empty string.
\<close>

theorem get_value_ignores_prefix:
  "get_value self prefix1 key c = get_value self prefix2 key c \<and>
   (\<exists>self' app' ws.
      init True app coll domain' expiry' httponly' cookie_name' sessioncookie' samesite'
        session_name' = Inr (self', app', ws) \<and>
      prefix self' = '''')"
  by (simp add: get_value_def init_def)

theorem get_value_ignores_prefix_witness:
  "get_value default_interface ''one:'' ''abc123''
     \<lparr>docs = [[(sid_field, PyStr ''abc123''), (expiry_field, PyDatetime 1764864000123000),
                (data_field, PyBytes ''user=42'')]],
      indexes = session_indexes\<rparr> =
   PyBytes ''user=42'' \<and>
   get_value default_interface ''two:'' ''abc123''
     \<lparr>docs = [[(sid_field, PyStr ''abc123''), (expiry_field, PyDatetime 1764864000123000),
                (data_field, PyBytes ''user=42'')]],
      indexes = session_indexes\<rparr> =
   PyBytes ''user=42''"
  using get_value_ignores_prefix [of default_interface "''one:''" "''abc123''"
      "\<lparr>docs = [[(sid_field, PyStr ''abc123''), (expiry_field, PyDatetime 1764864000123000),
                (data_field, PyBytes ''user=42'')]],
      indexes = session_indexes\<rparr>"
      "''two:''"]
  by (simp add: eval_defs)

end
